theory Spec2Isabelle
  imports Complex_Main
begin

section \<open>The SHAP explainer for tabular data\<close>

text \<open>
  A shallow embedding of \<^verbatim>\<open>omnixai/explainers/tabular/agnostic/shap.py\<close>:
  the constructor \<^verbatim>\<open>ShapTabular.__init__\<close> and the method
  \<^verbatim>\<open>ShapTabular.explain\<close>. Exceptions are values of a sum type, the
  calls into the attribution library and into the prediction function are logged as
  events, and the \<^verbatim>\<open>for\<close> loop over the instances is a recursive function.
\<close>

subsection \<open>Data\<close>

text \<open>
  One row of a \<^verbatim>\<open>Tabular\<close> (the one-row data frame \<^verbatim>\<open>X.iloc(i).to_pd()\<close>):
  column names with their raw values. Attribution scores and predicted probabilities are
  floating-point numbers in the source; they are real numbers here, so that rounding and
  NaN are outside the model.
\<close>

type_synonym 'v row = "(string \<times> 'v) list"

text \<open>
  The two \<^verbatim>\<open>assert\<close> statements of the file, by what they check:
  line 52 (message \<^verbatim>\<open>The target column ... cannot be in the ignored feature list.\<close>)
  and line 85 (message \<^verbatim>\<open>the length of y should be the same as the number of instances in X\<close>).
\<close>

datatype assertion = TargetColumnIgnored string | LabelLengthMismatch

text \<open>
  The exceptions the code can raise. \<open>Raised\<close> is an exception that an external
  callable (the attribution library or the prediction function) raised and that the code
  lets through; \<open>OutsideModel\<close> marks the one combination of shapes that the model
  leaves out (see \<open>target_scores\<close>).
\<close>

datatype error =
    AssertionError assertion
  | TypeError string
  | IndexError
  | KeyError string
  | ValueError
  | Raised string
  | OutsideModel

text \<open>
  The argument \<^verbatim>\<open>y\<close> of \<^verbatim>\<open>explain\<close> when it is not
  \<^verbatim>\<open>None\<close>: a value whose type is exactly \<^verbatim>\<open>int\<close> (the test
  \<^verbatim>\<open>type(y) == int\<close> of line 82); any other single value, here with its integer
  value (a \<^verbatim>\<open>numpy.int64\<close> or a \<^verbatim>\<open>bool\<close>, for which that test is false and
  which has no \<^verbatim>\<open>len\<close>); or a sequence of class indices.
\<close>

datatype labels = IntLabel int | Scalar int | SeqLabels "int list"

text \<open>
  What \<^verbatim>\<open>KernelExplainer.shap_values\<close> returns: for a model with a vector
  output a list with one array per class, indexed \<^verbatim>\<open>[label][i]\<close> (line 106); for a
  model with a scalar output one array, indexed \<^verbatim>\<open>[i]\<close> (line 121). Each array has
  one row per instance and one column per feature.
\<close>

datatype shap_values = PerClass "real list list list" | SingleOutput "real list list"

text \<open>
  The calls that the statements of \<^verbatim>\<open>explain\<close> themselves make into external code,
  in order: line 78 and line 90. What the attribution library does inside
  \<^verbatim>\<open>shap_values\<close> (it was built over \<^verbatim>\<open>self.predict_fn\<close> on lines 59 to 61 and
  may run the model) belongs to the library parameter and is not logged.
\<close>

datatype 'i event = ShapValuesCall "'i list" | PredictCall "'i list"

text \<open>Keyword arguments: the constructor only looks up the key \<^verbatim>\<open>nsamples\<close>.\<close>

type_synonym kwargs = "(string \<times> int) list"

text \<open>
  The \<^verbatim>\<open>shap\<close> package is a third-party library and a parameter of the model:
  \<^verbatim>\<open>shap.sample(data, nsamples=n)\<close> and the constructor
  \<^verbatim>\<open>shap.KernelExplainer(model, data, link=..., **kwargs)\<close>, whose result is
  represented by its method \<^verbatim>\<open>shap_values\<close>. Either may raise.
\<close>

record 'i shap_lib =
  sample :: "'i list \<Rightarrow> int \<Rightarrow> string + 'i list"
  KernelExplainer ::
    "('i list \<Rightarrow> string + real list list) \<Rightarrow> 'i list \<Rightarrow> string \<Rightarrow> kwargs
      \<Rightarrow> string + ('i list \<Rightarrow> string + shap_values)"

text \<open>
  The attributes that the base class constructor \<^verbatim>\<open>TabularExplainer.__init__\<close>
  (line 49, not part of this file) leaves on the object and that the code below reads.
  The transformer maps each raw row to the encoded instance handed to the model.
\<close>

record ('v, 'i) tabular_explainer =
  mode :: string
  target_column :: "string option"
  feature_columns :: "string list"
  data :: "'i list"
  predict_fn :: "'i list \<Rightarrow> string + real list list"
  transformer :: "'v row \<Rightarrow> 'i"

text \<open>The object after \<^verbatim>\<open>ShapTabular.__init__\<close>: two more attributes.\<close>

record ('v, 'i) shap_tabular = "('v, 'i) tabular_explainer" +
  ignored_features :: "string set"
  explainer :: "'i list \<Rightarrow> string + shap_values"

subsection \<open>The explanation object\<close>

text \<open>
  One record of a \<^verbatim>\<open>FeatureImportance\<close>: the instance, the target label (absent
  for regression) and the (feature, value, score) triples as three parallel lists.
\<close>

record 'v importance_record =
  rec_instance :: "'v row"
  target_label :: "int option"
  feature_names :: "string list"
  feature_values :: "'v list"
  importance_scores :: "real list"

record 'v feature_importance =
  fi_mode :: string
  explanations :: "'v importance_record list"

definition FeatureImportance :: "string \<Rightarrow> 'v feature_importance" where
  "FeatureImportance m = \<lparr>fi_mode = m, explanations = []\<rparr>"

text \<open>The key of the sort: descending absolute score.\<close>

definition score_key :: "string \<times> 'v \<times> real \<Rightarrow> real" where
  "score_key t = - \<bar>snd (snd t)\<bar>"

text \<open>
  Modelled from the spec: the method \<^verbatim>\<open>FeatureImportance.add\<close> (the record
  it builds is \<open>new_record\<close>, the append is \<open>add\<close>) of
  \<^verbatim>\<open>omnixai/explanations/tabular/feature_importance.py\<close> is missing from the
  sources. The specification gives \<^verbatim>\<open>add(instance, targetLabel, featureNames,
  featureValues, scores, sort)\<close>: append one record; its triples are ordered by descending
  absolute score when \<^verbatim>\<open>sort\<close> is true, with a stable tie-break (original feature
  order). \<open>sort_key\<close> is a stable insertion sort.
\<close>

definition new_record ::
  "'v row \<Rightarrow> int option \<Rightarrow> string list \<Rightarrow> 'v list \<Rightarrow> real list \<Rightarrow> bool
    \<Rightarrow> 'v importance_record" where
  "new_record inst lbl names vals scores sorted_flag =
     (let triples = zip names (zip vals scores);
          ordered = (if sorted_flag then sort_key score_key triples else triples)
      in \<lparr>rec_instance = inst, target_label = lbl,
          feature_names = map fst ordered,
          feature_values = map (fst \<circ> snd) ordered,
          importance_scores = map (snd \<circ> snd) ordered\<rparr>)"

definition add ::
  "'v feature_importance \<Rightarrow> 'v row \<Rightarrow> int option \<Rightarrow> string list \<Rightarrow> 'v list \<Rightarrow> real list
    \<Rightarrow> bool \<Rightarrow> 'v feature_importance" where
  "add expl inst lbl names vals scores sorted_flag =
     expl\<lparr>explanations :=
       explanations expl @ [new_record inst lbl names vals scores sorted_flag]\<rparr>"

subsection \<open>Python and numpy primitives\<close>

text \<open>Indexing a list or an array: a negative index counts from the end.\<close>

definition py_index :: "'a list \<Rightarrow> int \<Rightarrow> error + 'a" where
  "py_index xs i =
     (if 0 \<le> i \<and> i < int (length xs) then Inr (xs ! nat i)
      else if i < 0 \<and> - int (length xs) \<le> i then Inr (xs ! nat (int (length xs) + i))
      else Inl IndexError)"

text \<open>
  \<^verbatim>\<open>arr[valid_indices]\<close>: indexing a one-dimensional array with a list of
  (non-negative) indices; an index out of bounds raises.
\<close>

definition np_take :: "'a list \<Rightarrow> nat list \<Rightarrow> error + 'a list" where
  "np_take arr idx =
     (if \<forall>j \<in> set idx. j < length arr then Inr (map (\<lambda>j. arr ! j) idx) else Inl IndexError)"

text \<open>
  \<^verbatim>\<open>np.argmax\<close> on one row: a scan that keeps the first position of the largest
  value seen (a later entry replaces it only when strictly larger); an empty row raises
  \<^verbatim>\<open>ValueError\<close>.
\<close>

primrec argmax_scan :: "nat \<Rightarrow> real \<Rightarrow> nat \<Rightarrow> real list \<Rightarrow> nat" where
  "argmax_scan best bv i [] = best"
| "argmax_scan best bv i (x # xs) =
     (if bv < x then argmax_scan i x (Suc i) xs else argmax_scan best bv (Suc i) xs)"

definition argmax :: "real list \<Rightarrow> error + nat" where
  "argmax xs = (case xs of [] \<Rightarrow> Inl ValueError | x # rest \<Rightarrow> Inr (argmax_scan 0 x 1 rest))"

text \<open>\<^verbatim>\<open>np.argmax(prediction_scores, axis=1)\<close>: row by row.\<close>

primrec argmax_axis1 :: "real list list \<Rightarrow> error + nat list" where
  "argmax_axis1 [] = Inr []"
| "argmax_axis1 (r # rs) =
     (case argmax r of
        Inl err \<Rightarrow> Inl err
      | Inr k \<Rightarrow> (case argmax_axis1 rs of Inl err \<Rightarrow> Inl err | Inr ks \<Rightarrow> Inr (k # ks)))"

text \<open>
  \<^verbatim>\<open>[df[c].values[0] for c in columns]\<close>: a column that the row does not have
  raises \<^verbatim>\<open>KeyError\<close>, at the first such column.
\<close>

primrec lookup_columns :: "'v row \<Rightarrow> string list \<Rightarrow> error + 'v list" where
  "lookup_columns df [] = Inr []"
| "lookup_columns df (c # cs) =
     (case map_of df c of
        None \<Rightarrow> Inl (KeyError c)
      | Some v \<Rightarrow> (case lookup_columns df cs of Inl err \<Rightarrow> Inl err | Inr vs \<Rightarrow> Inr (v # vs)))"

subsection \<open>The constructor\<close>

text \<open>
  Lines 50 to 53. The set \<^verbatim>\<open>self.ignored_features\<close> defaults to the empty set,
  but the membership test of the assertion reads the parameter \<^verbatim>\<open>ignored_features\<close>
  itself: with \<^verbatim>\<open>None\<close> the operator \<^verbatim>\<open>in\<close> raises \<^verbatim>\<open>TypeError\<close>.
\<close>

definition check_target_column :: "string option \<Rightarrow> string list option \<Rightarrow> error + unit" where
  "check_target_column target ignored =
     (case target of
        None \<Rightarrow> Inr ()
      | Some t \<Rightarrow>
          (case ignored of
             None \<Rightarrow> Inl (TypeError ''argument of type NoneType is not iterable'')
           | Some fs \<Rightarrow>
               if t \<notin> set fs then Inr () else Inl (AssertionError (TargetColumnIgnored t))))"

text \<open>Lines 55 to 58: the background data handed to the kernel explainer.\<close>

definition background :: "'i shap_lib \<Rightarrow> 'i list \<Rightarrow> kwargs \<Rightarrow> error + 'i list" where
  "background lib d kw =
     (case map_of kw ''nsamples'' of
        Some n \<Rightarrow> (case sample lib d n of Inl msg \<Rightarrow> Inl (Raised msg) | Inr s \<Rightarrow> Inr s)
      | None \<Rightarrow> Inr d)"

text \<open>
  \<^verbatim>\<open>ShapTabular.__init__\<close>, from the object that the base class constructor has
  set up (line 49) to the finished explainer or the exception raised.
\<close>

definition ShapTabular_init ::
  "'i shap_lib \<Rightarrow> ('v, 'i) tabular_explainer \<Rightarrow> string list option \<Rightarrow> kwargs
    \<Rightarrow> error + ('v, 'i) shap_tabular" where
  "ShapTabular_init lib base ignored kw =
     (let ign = (case ignored of Some fs \<Rightarrow> set fs | None \<Rightarrow> {}) in
      case check_target_column (target_column base) ignored of
        Inl err \<Rightarrow> Inl err
      | Inr _ \<Rightarrow>
          (case background lib (data base) kw of
             Inl err \<Rightarrow> Inl err
           | Inr bg \<Rightarrow>
               (case KernelExplainer lib (predict_fn base) bg
                       (if mode base = ''classification'' then ''logit'' else ''identity'') kw of
                  Inl msg \<Rightarrow> Inl (Raised msg)
                | Inr ex \<Rightarrow>
                    Inr \<lparr>mode = mode base, target_column = target_column base,
                         feature_columns = feature_columns base, data = data base,
                         predict_fn = predict_fn base, transformer = transformer base,
                         ignored_features = ign, explainer = ex\<rparr>)))"

subsection \<open>Explaining a batch\<close>

text \<open>
  Lines 80 to 93: the labels to explain, with the calls made on the way. In
  classification an \<^verbatim>\<open>int\<close> is repeated for every instance; anything else goes to
  the assertion of line 85, where \<^verbatim>\<open>len(y)\<close> raises \<^verbatim>\<open>TypeError\<close> for a single
  value and a sequence must be as long as the batch; and without labels the prediction
  function is called and the top class of each row taken. Otherwise \<^verbatim>\<open>y\<close> becomes
  \<^verbatim>\<open>None\<close>.
\<close>

definition resolve_labels ::
  "('v, 'i) shap_tabular \<Rightarrow> 'i list \<Rightarrow> labels option \<Rightarrow> 'i event list \<times> (error + int list option)" where
  "resolve_labels e instances y =
     (if mode e = ''classification'' then
        (case y of
           Some (IntLabel v) \<Rightarrow> ([], Inr (Some (replicate (length instances) v)))
         | Some (Scalar v) \<Rightarrow> ([], Inl (TypeError ''object has no len()''))
         | Some (SeqLabels ys) \<Rightarrow>
             if length instances = length ys then ([], Inr (Some ys))
             else ([], Inl (AssertionError LabelLengthMismatch))
         | None \<Rightarrow>
             (case predict_fn e instances of
                Inl msg \<Rightarrow> ([PredictCall instances], Inl (Raised msg))
              | Inr prediction_scores \<Rightarrow>
                  ([PredictCall instances],
                   case argmax_axis1 prediction_scores of
                     Inl err \<Rightarrow> Inl err
                   | Inr ks \<Rightarrow> Inr (Some (map int ks)))))
      else ([], Inr None))"

text \<open>Lines 95 to 98. Both branches list the positions of the features that are kept.\<close>

definition valid_indices :: "('v, 'i) shap_tabular \<Rightarrow> nat list" where
  "valid_indices e =
     (if ignored_features e = {} then [0..<length (feature_columns e)]
      else map fst (filter (\<lambda>(i, f). f \<notin> ignored_features e) (enumerate 0 (feature_columns e))))"

text \<open>
  The label and the score vector of instance \<open>i\<close>: \<^verbatim>\<open>y[i]\<close> and
  \<^verbatim>\<open>shap_values[label][i]\<close> in classification (lines 105 and 106),
  \<^verbatim>\<open>shap_values[i]\<close> otherwise (line 121). A single array in classification makes
  \<^verbatim>\<open>shap_values[label][i]\<close> a scalar, whose indexing by a list raises
  \<^verbatim>\<open>IndexError\<close>, as does each of the two lookups out of range. A list of arrays outside
  classification is not a shape the library returns for a scalar model and is left out
  of the model.
\<close>

definition target_scores ::
  "string \<Rightarrow> shap_values \<Rightarrow> int list option \<Rightarrow> nat \<Rightarrow> error + (int option \<times> real list)" where
  "target_scores m sv y i =
     (if m = ''classification'' then
        (case y of
           None \<Rightarrow> Inl (TypeError ''NoneType object is not subscriptable'')
         | Some ys \<Rightarrow>
             (case py_index ys (int i) of
                Inl err \<Rightarrow> Inl err
              | Inr label \<Rightarrow>
                  (case sv of
                     SingleOutput arr \<Rightarrow> Inl IndexError
                   | PerClass cls \<Rightarrow>
                       (case py_index cls label of
                          Inl err \<Rightarrow> Inl err
                        | Inr arr \<Rightarrow>
                            (case py_index arr (int i) of
                               Inl err \<Rightarrow> Inl err
                             | Inr scores \<Rightarrow> Inr (Some label, scores))))))
      else
        (case sv of
           PerClass cls \<Rightarrow> Inl OutsideModel
         | SingleOutput arr \<Rightarrow>
             (case py_index arr (int i) of
                Inl err \<Rightarrow> Inl err
              | Inr scores \<Rightarrow> Inr (None, scores))))"

text \<open>
  The body of the loop, lines 101 to 123, for the instance at position \<open>i\<close>, up to the
  call of \<^verbatim>\<open>add\<close>: the row, the values and names of the kept features, the label and
  the scores, and the scores restricted to the kept positions. The positions in
  \<open>vi\<close> come from \<open>valid_indices\<close> and lie within \<^verbatim>\<open>self.feature_columns\<close>.
\<close>

definition add_arguments ::
  "('v, 'i) shap_tabular \<Rightarrow> 'v row list \<Rightarrow> shap_values \<Rightarrow> int list option \<Rightarrow> nat list \<Rightarrow> nat
    \<Rightarrow> error + ('v row \<times> int option \<times> string list \<times> 'v list \<times> real list)" where
  "add_arguments e X sv y vi i =
     (case py_index X (int i) of
        Inl err \<Rightarrow> Inl err
      | Inr df \<Rightarrow>
          (case lookup_columns df (map (\<lambda>j. feature_columns e ! j) vi) of
             Inl err \<Rightarrow> Inl err
           | Inr vals \<Rightarrow>
               (let names = map (\<lambda>j. feature_columns e ! j) vi in
                case target_scores (mode e) sv y i of
                  Inl err \<Rightarrow> Inl err
                | Inr (label, scores) \<Rightarrow>
                    (case np_take scores vi of
                       Inl err \<Rightarrow> Inl err
                     | Inr kept \<Rightarrow> Inr (df, label, names, vals, kept)))))"

text \<open>One turn of the loop: the arguments, then \<^verbatim>\<open>explanations.add(..., sort=True)\<close>.\<close>

definition explain_instance ::
  "('v, 'i) shap_tabular \<Rightarrow> 'v row list \<Rightarrow> shap_values \<Rightarrow> int list option \<Rightarrow> nat list \<Rightarrow> nat
    \<Rightarrow> 'v feature_importance \<Rightarrow> error + 'v feature_importance" where
  "explain_instance e X sv y vi i expl =
     (case add_arguments e X sv y vi i of
        Inl err \<Rightarrow> Inl err
      | Inr (df, label, names, vals, kept) \<Rightarrow> Inr (add expl df label names vals kept True))"

text \<open>The loop of line 100 over the positions of the instances; an exception ends it.\<close>

primrec explain_loop ::
  "('v, 'i) shap_tabular \<Rightarrow> 'v row list \<Rightarrow> shap_values \<Rightarrow> int list option \<Rightarrow> nat list \<Rightarrow> nat list
    \<Rightarrow> 'v feature_importance \<Rightarrow> error + 'v feature_importance" where
  "explain_loop e X sv y vi [] expl = Inr expl"
| "explain_loop e X sv y vi (i # rest) expl =
     (case explain_instance e X sv y vi i expl of
        Inl err \<Rightarrow> Inl err
      | Inr expl' \<Rightarrow> explain_loop e X sv y vi rest expl')"

text \<open>
  \<^verbatim>\<open>ShapTabular.explain\<close>. \<open>X\<close> is the batch after line 75 (a \<^verbatim>\<open>Tabular\<close>
  without its target column), and the transformer of line 77 works row by row, so there
  are as many instances as rows. Line 78 calls the attribution library on the whole batch
  before anything else is looked at (the keyword arguments it passes on belong to the
  library, a parameter here); the result pairs the calls made with the returned
  explanations or the exception raised.
\<close>

definition explain ::
  "('v, 'i) shap_tabular \<Rightarrow> 'v row list \<Rightarrow> labels option
    \<Rightarrow> 'i event list \<times> (error + 'v feature_importance)" where
  "explain e X y =
     (let explanations0 = FeatureImportance (mode e);
          instances = map (transformer e) X
      in case explainer e instances of
           Inl msg \<Rightarrow> ([ShapValuesCall instances], Inl (Raised msg))
         | Inr sv \<Rightarrow>
             (case resolve_labels e instances y of
                (evs, Inl err) \<Rightarrow> (ShapValuesCall instances # evs, Inl err)
              | (evs, Inr ys) \<Rightarrow>
                  (ShapValuesCall instances # evs,
                   explain_loop e X sv ys (valid_indices e) [0..<length instances]
                     explanations0)))"

subsection \<open>Example inputs\<close>

text \<open>
  A toy attribution library, a three-class predictor with a tie between classes 1 and 2,
  and explainers over two or three numeric features, used to run the definitions.
\<close>

definition example_shap_values :: "real list list \<Rightarrow> string + shap_values" where
  "example_shap_values xs =
     Inr (PerClass [xs, map (map (\<lambda>v. 2 * v)) xs, map (map (\<lambda>v. - v)) xs])"

definition example_predict :: "real list list \<Rightarrow> string + real list list" where
  "example_predict xs = Inr (map (\<lambda>x. [1 / 5, 2 / 5, 2 / 5]) xs)"

definition example_lib :: "real list shap_lib" where
  "example_lib =
     \<lparr>sample = (\<lambda>d n. Inr (take (nat n) d)),
      KernelExplainer = (\<lambda>model bg link kw. Inr example_shap_values)\<rparr>"

definition example_base :: "(real, real list) tabular_explainer" where
  "example_base =
     \<lparr>mode = ''classification'', target_column = Some ''y'',
      feature_columns = [''a'', ''b'', ''c''], data = [[0, 0, 0]],
      predict_fn = example_predict, transformer = map snd\<rparr>"

definition example_classifier :: "(real, real list) shap_tabular" where
  "example_classifier =
     \<lparr>mode = ''classification'', target_column = Some ''y'',
      feature_columns = [''a'', ''b'', ''c''], data = [[0, 0, 0]],
      predict_fn = example_predict, transformer = map snd,
      ignored_features = {''b''}, explainer = example_shap_values\<rparr>"

definition example_regressor :: "(real, real list) shap_tabular" where
  "example_regressor =
     \<lparr>mode = ''regression'', target_column = None,
      feature_columns = [''a'', ''b''], data = [[0, 0]],
      predict_fn = (\<lambda>xs. Inr (map (\<lambda>x. [sum_list x]) xs)), transformer = map snd,
      ignored_features = {}, explainer = (\<lambda>xs. Inr (SingleOutput xs))\<rparr>"

definition example_batch :: "real row list" where
  "example_batch = [[(''a'', 1), (''b'', 2), (''c'', - 3)], [(''a'', 4), (''b'', 5), (''c'', 6)]]"



definition example_untargeted :: "(real, real list) tabular_explainer" where
  "example_untargeted = example_base\<lparr>target_column := None\<rparr>"

section \<open>Properties\<close>

subsection \<open>Auxiliary facts\<close>

lemma py_index_nat: "py_index xs (int i) = (if i < length xs then Inr (xs ! i) else Inl IndexError)"
  by (simp add: py_index_def)

lemma lookup_columns_Inr:
  "lookup_columns df cs = Inr vs \<Longrightarrow> vs = map (\<lambda>c. the (map_of df c)) cs \<and> (\<forall>c \<in> set cs. map_of df c \<noteq> None)"
  by (induction cs arbitrary: vs) (auto split: option.splits sum.splits)

lemma np_take_Inr:
  "np_take arr idx = Inr kept \<Longrightarrow> kept = map (\<lambda>j. arr ! j) idx \<and> (\<forall>j \<in> set idx. j < length arr)"
  by (auto simp: np_take_def split: if_splits)

lemma enumerate_filter_positions:
  "map fst (filter (\<lambda>(i, f). P f) (enumerate n xs)) = filter (\<lambda>i. P (xs ! (i - n))) [n..<n + length xs]"
proof (induction xs arbitrary: n)
  case Nil
  then show ?case by simp
next
  case (Cons x xs)
  have tl: "filter (\<lambda>i. P ((x # xs) ! (i - n))) [Suc n..<Suc n + length xs]
      = filter (\<lambda>i. P (xs ! (i - Suc n))) [Suc n..<Suc n + length xs]"
  proof (rule filter_cong)
    fix i assume "i \<in> set [Suc n..<Suc n + length xs]"
    then have "i - n = Suc (i - Suc n)" by auto
    then show "P ((x # xs) ! (i - n)) = P (xs ! (i - Suc n))" by simp
  qed simp
  have "n < Suc n + length xs" by simp
  then have up: "[n..<Suc n + length xs] = n # [Suc n..<Suc n + length xs]"
    by (rule upt_conv_Cons)
  have "n + length (x # xs) = Suc n + length xs" by simp
  then have "filter (\<lambda>i. P ((x # xs) ! (i - n))) [n..<n + length (x # xs)]
      = filter (\<lambda>i. P ((x # xs) ! (i - n))) (n # [Suc n..<Suc n + length xs])"
    using up by metis
  also have "\<dots> = (if P x then [n] else []) @ filter (\<lambda>i. P (xs ! (i - Suc n))) [Suc n..<Suc n + length xs]"
    using tl by simp
  also have "\<dots> = map fst (filter (\<lambda>(i, f). P f) (enumerate n (x # xs)))"
    using Cons.IH [of "Suc n"] by simp
  finally show ?case by simp
qed

lemma valid_indices_filter:
  "valid_indices e = filter (\<lambda>j. feature_columns e ! j \<notin> ignored_features e) [0..<length (feature_columns e)]"
  using enumerate_filter_positions [of "\<lambda>f. f \<notin> ignored_features e" 0 "feature_columns e"]
  by (simp add: valid_indices_def)

lemma target_scores_regression:
  "m \<noteq> ''classification'' \<Longrightarrow> target_scores m sv y i = Inr (lbl, full) \<Longrightarrow> lbl = None"
  by (auto simp: target_scores_def split: shap_values.splits sum.splits)


lemma add_arguments_Inr:
  assumes "add_arguments e X sv y vi i = Inr (df, lbl, names, vals, kept)"
  shows "i < length X \<and> df = X ! i
       \<and> names = map (\<lambda>j. feature_columns e ! j) vi
       \<and> vals = map (\<lambda>j. the (map_of df (feature_columns e ! j))) vi
       \<and> (\<forall>j \<in> set vi. map_of df (feature_columns e ! j) \<noteq> None)
       \<and> (\<exists>full. target_scores (mode e) sv y i = Inr (lbl, full)
             \<and> kept = map (\<lambda>j. full ! j) vi \<and> (\<forall>j \<in> set vi. j < length full))"
  using assms
  by (auto simp: add_arguments_def py_index_nat Let_def comp_def
      dest!: lookup_columns_Inr np_take_Inr split: sum.splits if_splits prod.splits)

lemma explain_loop_Inr:
  "explain_loop e X sv y vi is expl = Inr res \<Longrightarrow>
     fi_mode res = fi_mode expl \<and>
     (\<exists>as. length as = length is
        \<and> (\<forall>k < length is. add_arguments e X sv y vi (is ! k) = Inr (as ! k))
        \<and> explanations res = explanations expl @
             map (\<lambda>(df, lbl, names, vals, kept). new_record df lbl names vals kept True) as)"
proof (induction "is" arbitrary: expl)
  case Nil
  then show ?case by simp
next
  case (Cons i rest)
  from Cons.prems obtain a where a: "add_arguments e X sv y vi i = Inr a"
    and rest: "explain_loop e X sv y vi rest
                 (case a of (df, lbl, names, vals, kept) \<Rightarrow> add expl df lbl names vals kept True) = Inr res"
    by (auto simp: explain_instance_def split: sum.splits prod.splits)
  let ?expl' = "case a of (df, lbl, names, vals, kept) \<Rightarrow> add expl df lbl names vals kept True"
  have e': "explanations ?expl' = explanations expl @ [case a of (df, lbl, names, vals, kept) \<Rightarrow> new_record df lbl names vals kept True]"
    and m': "fi_mode ?expl' = fi_mode expl"
    by (auto simp: add_def split: prod.splits)
  from Cons.IH [OF rest] obtain as where as: "length as = length rest"
    "\<forall>k < length rest. add_arguments e X sv y vi (rest ! k) = Inr (as ! k)"
    "explanations res = explanations ?expl' @
             map (\<lambda>(df, lbl, names, vals, kept). new_record df lbl names vals kept True) as"
    and m: "fi_mode res = fi_mode ?expl'"
    by blast
  have "\<forall>k < length (i # rest). add_arguments e X sv y vi ((i # rest) ! k) = Inr ((a # as) ! k)"
    using a as(2) by (auto simp: nth_Cons split: nat.splits)
  moreover have "explanations res = explanations expl @
             map (\<lambda>(df, lbl, names, vals, kept). new_record df lbl names vals kept True) (a # as)"
    using as(3) e' by simp
  moreover have "length (a # as) = length (i # rest)" using as(1) by simp
  ultimately show ?case using m m' by metis
qed


lemma zip_unzip_triples:
  "zip (map fst ts) (zip (map (fst \<circ> snd) ts) (map (snd \<circ> snd) ts)) = ts"
  by (induction ts) auto

lemma new_record_fields:
  "rec_instance (new_record df lbl names vals scores b) = df"
  "target_label (new_record df lbl names vals scores b) = lbl"
  "zip (feature_names (new_record df lbl names vals scores True))
       (zip (feature_values (new_record df lbl names vals scores True))
            (importance_scores (new_record df lbl names vals scores True)))
     = sort_key score_key (zip names (zip vals scores))"
  "set (feature_names (new_record df lbl names vals scores True)) = fst ` set (zip names (zip vals scores))"
  by (simp_all add: new_record_def Let_def zip_unzip_triples)

lemma explain_Inr:
  assumes "snd (explain e X y) = Inr res"
  shows "\<exists>sv ys as.
      explainer e (map (transformer e) X) = Inr sv
    \<and> snd (resolve_labels e (map (transformer e) X) y) = Inr ys
    \<and> length as = length X
    \<and> (\<forall>i < length X. add_arguments e X sv ys (valid_indices e) i = Inr (as ! i))
    \<and> explanations res =
         map (\<lambda>(df, lbl, names, vals, kept). new_record df lbl names vals kept True) as"
proof -
  from assms obtain sv evs ys where sv: "explainer e (map (transformer e) X) = Inr sv"
    and ys: "resolve_labels e (map (transformer e) X) y = (evs, Inr ys)"
    and loop: "explain_loop e X sv ys (valid_indices e) [0..<length X] (FeatureImportance (mode e)) = Inr res"
    by (auto simp: explain_def Let_def split: sum.splits prod.splits)
  from explain_loop_Inr [OF loop] obtain as where
    "length as = length [0..<length X]"
    "\<forall>k < length [0..<length X]. add_arguments e X sv ys (valid_indices e) ([0..<length X] ! k) = Inr (as ! k)"
    "explanations res = explanations (FeatureImportance (mode e)) @
         map (\<lambda>(df, lbl, names, vals, kept). new_record df lbl names vals kept True) as"
    by blast
  then have "length as = length X"
    "\<forall>i < length X. add_arguments e X sv ys (valid_indices e) i = Inr (as ! i)"
    "explanations res = map (\<lambda>(df, lbl, names, vals, kept). new_record df lbl names vals kept True) as"
    by (simp_all add: FeatureImportance_def)
  with sv ys show ?thesis by auto
qed




lemma lookup_columns_Inl: "lookup_columns df cs = Inl err \<Longrightarrow> \<exists>c. err = KeyError c"
  by (induction cs) (auto split: option.splits sum.splits)

lemma target_scores_Inl:
  "target_scores m sv y i = Inl err \<Longrightarrow> err = IndexError \<or> err = OutsideModel \<or> (\<exists>s. err = TypeError s)"
  by (auto simp: target_scores_def py_index_def Let_def
      split: option.splits shap_values.splits sum.splits if_splits)

lemma add_arguments_Inl:
  "add_arguments e X sv y vi i = Inl err \<Longrightarrow> \<forall>a. err \<noteq> AssertionError a"
  by (auto simp: add_arguments_def py_index_def np_take_def Let_def
      dest!: lookup_columns_Inl target_scores_Inl
      split: sum.splits if_splits prod.splits)

lemma explain_loop_Inl:
  "explain_loop e X sv y vi is expl = Inl err \<Longrightarrow> \<forall>a. err \<noteq> AssertionError a"
proof (induction "is" arbitrary: expl)
  case Nil
  then show ?case by simp
next
  case (Cons i rest)
  then show ?case
    by (auto simp: explain_instance_def dest: add_arguments_Inl split: sum.splits prod.splits)
qed

lemma argmax_axis1_Inl: "argmax_axis1 P = Inl err \<Longrightarrow> err = ValueError"
  by (induction P) (auto simp: argmax_def split: sum.splits list.splits)

lemma resolve_labels_Inl:
  "resolve_labels e instances y = (evs, Inl err) \<Longrightarrow>
     err = AssertionError LabelLengthMismatch \<or> err = ValueError \<or> (\<exists>s. err = Raised s)
       \<or> (\<exists>s. err = TypeError s)"
  by (auto simp: resolve_labels_def dest: argmax_axis1_Inl
      split: if_splits option.splits labels.splits sum.splits)

lemma explain_never_target_assertion:
  "snd (explain e X y) \<noteq> Inl (AssertionError (TargetColumnIgnored c))"
proof
  assume a: "snd (explain e X y) = Inl (AssertionError (TargetColumnIgnored c))"
  then show False
    by (auto simp: explain_def Let_def dest: explain_loop_Inl dest!: resolve_labels_Inl
        split: sum.splits prod.splits)
qed


lemma explanations_labels:
  assumes "snd (explain e X y) = Inr res"
  shows "length (explanations res) = length X
     \<and> (\<exists>sv ys. explainer e (map (transformer e) X) = Inr sv
          \<and> snd (resolve_labels e (map (transformer e) X) y) = Inr ys
          \<and> (\<forall>i < length X. \<exists>full.
                target_scores (mode e) sv ys i = Inr (target_label (explanations res ! i), full)))"
proof -
  from explain_Inr [OF assms] obtain sv ys as where
    sv: "explainer e (map (transformer e) X) = Inr sv"
    and ys: "snd (resolve_labels e (map (transformer e) X) y) = Inr ys"
    and len: "length as = length X"
    and args: "\<forall>i < length X. add_arguments e X sv ys (valid_indices e) i = Inr (as ! i)"
    and ex: "explanations res =
         map (\<lambda>(df, lbl, names, vals, kept). new_record df lbl names vals kept True) as"
    by blast
  have "\<exists>full. target_scores (mode e) sv ys i = Inr (target_label (explanations res ! i), full)"
    if i: "i < length X" for i
  proof -
    obtain df lbl names vals kept where a: "as ! i = (df, lbl, names, vals, kept)"
      by (cases "as ! i") auto
    with args i have "add_arguments e X sv ys (valid_indices e) i = Inr (df, lbl, names, vals, kept)"
      by simp
    from add_arguments_Inr [OF this] obtain full where
      "target_scores (mode e) sv ys i = Inr (lbl, full)" by blast
    moreover have "target_label (explanations res ! i) = lbl"
      using ex a i len by (simp add: new_record_fields)
    ultimately show ?thesis by auto
  qed
  with sv ys ex len show ?thesis by auto
qed

lemma zip_three_maps:
  "zip (map f xs) (zip (map g xs) (map h xs)) = map (\<lambda>x. (f x, g x, h x)) xs"
  by (induction xs) auto

lemma kept_names:
  "(\<lambda>j. cols ! j) ` {j. j < length cols \<and> cols ! j \<notin> ign} = set cols - ign"
  by (auto simp: in_set_conv_nth)




subsection \<open>The constructor\<close>

text \<open>
  Claim C2. If the explainer has a target column and its name is among the ignored
  features passed to the constructor, construction fails on the assertion of line 52
  (the specification's \<^verbatim>\<open>ConfigError\<close>), whatever the attribution library and the
  keyword arguments are, so before either is used. The failure never comes at explain
  time: an explainer that was constructed does not have its target column among its
  ignored features, and \<open>explain\<close> never raises that assertion.
\<close>

theorem target_column_ignored_fails_construction:
  "(target_column base = Some t \<and> t \<in> set fs \<longrightarrow>
      ShapTabular_init lib base (Some fs) kw = Inl (AssertionError (TargetColumnIgnored t)))
   \<and> (ShapTabular_init lib base ignored kw = Inr e \<longrightarrow>
        (\<forall>c. target_column e = Some c \<longrightarrow> c \<notin> ignored_features e)
        \<and> snd (explain e X y) \<noteq> Inl (AssertionError (TargetColumnIgnored c')))"
proof (intro conjI impI allI)
  assume "target_column base = Some t \<and> t \<in> set fs"
  then show "ShapTabular_init lib base (Some fs) kw = Inl (AssertionError (TargetColumnIgnored t))"
    by (simp add: ShapTabular_init_def check_target_column_def)
next
  fix c
  assume "ShapTabular_init lib base ignored kw = Inr e" and "target_column e = Some c"
  then show "c \<notin> ignored_features e"
    by (auto simp: ShapTabular_init_def check_target_column_def Let_def
        split: sum.splits option.splits if_splits)
next
  show "snd (explain e X y) \<noteq> Inl (AssertionError (TargetColumnIgnored c'))"
    by (rule explain_never_target_assertion)
qed

theorem target_column_ignored_fails_construction_witness:
  "target_column example_base = Some ''y'' \<and> ''y'' \<in> set [''b'', ''y'']
   \<and> ShapTabular_init example_lib example_base (Some [''b'', ''y'']) [(''nsamples'', 1)]
        = Inl (AssertionError (TargetColumnIgnored ''y''))
   \<and> ShapTabular_init example_lib example_base (Some [''b'']) [] = Inr example_classifier
   \<and> ''y'' \<notin> ignored_features example_classifier
   \<and> snd (explain example_classifier example_batch None)
        \<noteq> Inl (AssertionError (TargetColumnIgnored ''y''))"
proof -
  have h1: "target_column example_base = Some ''y'' \<and> ''y'' \<in> set [''b'', ''y'']"
    by (simp add: example_base_def)
  have h2: "ShapTabular_init example_lib example_base (Some [''b'']) [] = Inr example_classifier"
    by (simp add: ShapTabular_init_def example_lib_def example_base_def example_classifier_def
        check_target_column_def background_def)
  have h3: "target_column example_classifier = Some ''y''"
    by (simp add: example_classifier_def)
  from target_column_ignored_fails_construction
    [of example_base "''y''" "[''b'', ''y'']" example_lib "[(''nsamples'', 1)]"
        "Some [''b'']" example_classifier example_batch None "''y''"]
  have "ShapTabular_init example_lib example_base (Some [''b'', ''y'']) [(''nsamples'', 1)]
          = Inl (AssertionError (TargetColumnIgnored ''y''))"
    using h1 by blast
  moreover from target_column_ignored_fails_construction
    [of example_base "''y''" "[''b'', ''y'']" example_lib "[]"
        "Some [''b'']" example_classifier example_batch None "''y''"]
  have "''y'' \<notin> ignored_features example_classifier
      \<and> snd (explain example_classifier example_batch None)
          \<noteq> Inl (AssertionError (TargetColumnIgnored ''y''))"
    using h2 h3 by blast
  ultimately show ?thesis using h1 h2 by blast
qed

text \<open>
  Claim C10. With \<^verbatim>\<open>ignored_features\<close> left as \<^verbatim>\<open>None\<close> and a target column
  present, the constructor raises: the membership test of line 52 is made against the
  parameter, which is \<^verbatim>\<open>None\<close>, not against the defaulted empty set. So a construction
  without ignored features that succeeds has no target column.
\<close>

theorem no_ignored_features_with_target_column:
  "(target_column base = Some t \<longrightarrow>
      ShapTabular_init lib base None kw = Inl (TypeError ''argument of type NoneType is not iterable''))
   \<and> (ShapTabular_init lib base None kw = Inr e \<longrightarrow>
        target_column base = None \<and> ignored_features e = {})"
  by (auto simp: ShapTabular_init_def check_target_column_def Let_def
      split: sum.splits option.splits)

theorem no_ignored_features_with_target_column_witness:
  "target_column example_base = Some ''y''
   \<and> ShapTabular_init example_lib example_base None []
        = Inl (TypeError ''argument of type NoneType is not iterable'')
   \<and> ShapTabular_init example_lib example_untargeted None []
        = Inr (example_classifier\<lparr>target_column := None, ignored_features := {}\<rparr>)
   \<and> target_column example_untargeted = None"
proof -
  have h1: "target_column example_base = Some ''y''"
    by (simp add: example_base_def)
  have h2: "ShapTabular_init example_lib example_untargeted None []
        = Inr (example_classifier\<lparr>target_column := None, ignored_features := {}\<rparr>)"
    by (simp add: ShapTabular_init_def example_lib_def example_base_def example_classifier_def
        example_untargeted_def check_target_column_def background_def)
  from no_ignored_features_with_target_column
    [of example_base "''y''" example_lib "[]"]
  have "ShapTabular_init example_lib example_base None []
        = Inl (TypeError ''argument of type NoneType is not iterable'')"
    using h1 by blast
  moreover from no_ignored_features_with_target_column
    [of example_untargeted "''y''" example_lib "[]"
        "example_classifier\<lparr>target_column := None, ignored_features := {}\<rparr>"]
  have "target_column example_untargeted = None"
    using h2 by blast
  ultimately show ?thesis using h1 h2 by blast
qed

subsection \<open>Labels\<close>




text \<open>
  Claim C4, as amended. Whenever \<open>explain\<close> fails on the assertion of line 85 (the labels
  are a sequence whose length differs from the number of instances), the attribution
  library has already been called once, on the whole batch, and has returned: line 78
  runs before the check. After the failed check nothing more is done: of the calls that
  the statements of \<open>explain\<close> make themselves, that one is the only one in the log
  (line 90 is not reached), and no record is built or returned. What the attribution
  library did inside its call, running the model included, is not part of the log.
\<close>

theorem label_mismatch_follows_attribution:
  assumes "snd (explain e X y) = Inl (AssertionError LabelLengthMismatch)"
  shows "fst (explain e X y) = [ShapValuesCall (map (transformer e) X)]
       \<and> (\<exists>sv. explainer e (map (transformer e) X) = Inr sv)
       \<and> (\<exists>ys. y = Some (SeqLabels ys) \<and> length ys \<noteq> length X)"
proof -
  from assms obtain sv where sv: "explainer e (map (transformer e) X) = Inr sv"
    by (auto simp: explain_def Let_def split: sum.splits)
  obtain evs r where rl: "resolve_labels e (map (transformer e) X) y = (evs, r)"
    by (cases "resolve_labels e (map (transformer e) X) y") auto
  have r: "r = Inl (AssertionError LabelLengthMismatch)"
  proof (cases r)
    case (Inl err)
    with assms sv rl show ?thesis by (simp add: explain_def Let_def)
  next
    case (Inr ys)
    with assms sv rl have "explain_loop e X sv ys (valid_indices e) [0..<length X]
        (FeatureImportance (mode e)) = Inl (AssertionError LabelLengthMismatch)"
      by (simp add: explain_def Let_def)
    from explain_loop_Inl [OF this] show ?thesis by simp
  qed
  from rl r have "evs = [] \<and> (\<exists>ys. y = Some (SeqLabels ys) \<and> length ys \<noteq> length X)"
    by (auto simp: resolve_labels_def dest: argmax_axis1_Inl
        split: if_splits option.splits labels.splits sum.splits)
  with sv rl r show ?thesis by (simp add: explain_def Let_def)
qed

text \<open>An instance of the theorem: two rows, three labels.\<close>

theorem label_mismatch_follows_attribution_witness:
  "snd (explain example_classifier example_batch (Some (SeqLabels [0, 1, 2])))
      = Inl (AssertionError LabelLengthMismatch)
   \<and> fst (explain example_classifier example_batch (Some (SeqLabels [0, 1, 2])))
      = [ShapValuesCall (map (transformer example_classifier) example_batch)]"
proof -
  have h: "snd (explain example_classifier example_batch (Some (SeqLabels [0, 1, 2])))
      = Inl (AssertionError LabelLengthMismatch)"
    by code_simp
  from label_mismatch_follows_attribution [OF h] h show ?thesis by blast
qed

text \<open>
  The claim as stated (no attributor invocation precedes the validation check) fails on
  this call: its log holds the attributor's invocation, and its result is the assertion
  failure.
\<close>

theorem attribution_precedes_label_check_counterexample:
  "explain example_classifier example_batch (Some (SeqLabels [0, 1, 2]))
     = ([ShapValuesCall [[1, 2, - 3], [4, 5, 6]]], Inl (AssertionError LabelLengthMismatch))"
  by code_simp



text \<open>
  Claim C6. In regression mode the argument \<^verbatim>\<open>y\<close> has no effect: \<open>explain\<close> makes the
  same calls and gives the same result for any two values of it; and when it returns,
  there is one record per instance and every record's target label is absent.
\<close>

theorem explain_regression_ignores_labels:
  assumes "mode e = ''regression''"
  shows "explain e X y = explain e X y'
       \<and> (snd (explain e X y) = Inr res \<longrightarrow>
            length (explanations res) = length X
          \<and> (\<forall>r \<in> set (explanations res). target_label r = None))"
proof (intro conjI impI)
  from assms have ne: "mode e \<noteq> ''classification''" by simp
  then have rl: "resolve_labels e instances z = ([], Inr None)" for instances z
    by (simp add: resolve_labels_def)
  show "explain e X y = explain e X y'"
    by (simp add: explain_def Let_def rl split: sum.splits)
  assume r: "snd (explain e X y) = Inr res"
  from explanations_labels [OF r] obtain sv ys where
    len: "length (explanations res) = length X"
    and lbl: "\<forall>i < length X. \<exists>full.
                target_scores (mode e) sv ys i = Inr (target_label (explanations res ! i), full)"
    by blast
  show "length (explanations res) = length X" by (rule len)
  show "\<forall>r \<in> set (explanations res). target_label r = None"
  proof
    fix r assume "r \<in> set (explanations res)"
    then obtain i where i: "i < length X" and ri: "r = explanations res ! i"
      using len by (metis in_set_conv_nth)
    from lbl i ri obtain full where "target_scores (mode e) sv ys i = Inr (target_label r, full)"
      by auto
    from target_scores_regression [OF ne this] show "target_label r = None" .
  qed
qed

theorem explain_regression_ignores_labels_witness:
  "mode example_regressor = ''regression''
   \<and> explain example_regressor [[(''a'', 1), (''b'', 2)]] (Some (SeqLabels [7, 8, 9]))
       = explain example_regressor [[(''a'', 1), (''b'', 2)]] None
   \<and> snd (explain example_regressor [[(''a'', 1), (''b'', 2)]] (Some (SeqLabels [7, 8, 9])))
       = Inr \<lparr>fi_mode = ''regression'',
              explanations =
               [\<lparr>rec_instance = [(''a'', 1), (''b'', 2)], target_label = None,
                  feature_names = [''b'', ''a''], feature_values = [2, 1],
                  importance_scores = [2, 1]\<rparr>]\<rparr>"
proof -
  have h0: "mode example_regressor = ''regression''"
    by (simp add: example_regressor_def)
  have h1: "snd (explain example_regressor [[(''a'', 1), (''b'', 2)]] (Some (SeqLabels [7, 8, 9])))
       = Inr \<lparr>fi_mode = ''regression'',
              explanations =
               [\<lparr>rec_instance = [(''a'', 1), (''b'', 2)], target_label = None,
                  feature_names = [''b'', ''a''], feature_values = [2, 1],
                  importance_scores = [2, 1]\<rparr>]\<rparr>"
    by code_simp
  from explain_regression_ignores_labels [OF h0, of "[[(''a'', 1), (''b'', 2)]]"
      "Some (SeqLabels [7, 8, 9])" None]
  have "explain example_regressor [[(''a'', 1), (''b'', 2)]] (Some (SeqLabels [7, 8, 9]))
       = explain example_regressor [[(''a'', 1), (''b'', 2)]] None"
    by blast
  with h0 h1 show ?thesis by blast
qed

subsection \<open>Feature filtering\<close>

text \<open>
  Claim C7, as amended. For every call of \<open>explain\<close> that returns and every instance
  \<open>i\<close>, the record's names, values and scores are those of the feature positions whose
  name is not in \<^verbatim>\<open>ignored_features\<close>, and of no other: \<open>explain\<close> hands them to
  \<^verbatim>\<open>add\<close> in the original feature order with \<^verbatim>\<open>sort=True\<close>, so the record holds
  these triples ordered by descending absolute score (ties in the original order), not in
  the original feature order. The scores are taken from the attributor's vector for the
  instance, the values from the row; the names in the record are exactly the feature
  columns that are not ignored.
\<close>

theorem explain_keeps_valid_features:
  assumes "snd (explain e X y) = Inr res" and "i < length X"
  shows "\<exists>sv ys lbl full.
           explainer e (map (transformer e) X) = Inr sv
         \<and> snd (resolve_labels e (map (transformer e) X) y) = Inr ys
         \<and> target_scores (mode e) sv ys i = Inr (lbl, full)
         \<and> (\<forall>j < length (feature_columns e). feature_columns e ! j \<notin> ignored_features e \<longrightarrow>
               j < length full \<and> map_of (X ! i) (feature_columns e ! j) \<noteq> None)
         \<and> zip (feature_names (explanations res ! i))
               (zip (feature_values (explanations res ! i))
                    (importance_scores (explanations res ! i)))
             = sort_key score_key
                 (map (\<lambda>j. (feature_columns e ! j,
                             the (map_of (X ! i) (feature_columns e ! j)),
                             full ! j))
                    (filter (\<lambda>j. feature_columns e ! j \<notin> ignored_features e)
                       [0..<length (feature_columns e)]))
         \<and> length (feature_values (explanations res ! i)) = length (feature_names (explanations res ! i))
         \<and> length (importance_scores (explanations res ! i)) = length (feature_names (explanations res ! i))
         \<and> set (feature_names (explanations res ! i)) = set (feature_columns e) - ignored_features e"
proof -
  from explain_Inr [OF assms(1)] obtain sv ys as where
    sv: "explainer e (map (transformer e) X) = Inr sv"
    and ys: "snd (resolve_labels e (map (transformer e) X) y) = Inr ys"
    and len: "length as = length X"
    and args: "\<forall>i < length X. add_arguments e X sv ys (valid_indices e) i = Inr (as ! i)"
    and ex: "explanations res =
         map (\<lambda>(df, lbl, names, vals, kept). new_record df lbl names vals kept True) as"
    by blast
  obtain df lbl names vals kept where a: "as ! i = (df, lbl, names, vals, kept)"
    by (cases "as ! i") auto
  let ?vi = "filter (\<lambda>j. feature_columns e ! j \<notin> ignored_features e) [0..<length (feature_columns e)]"
  let ?r = "explanations res ! i"
  from args assms(2) a
  have "add_arguments e X sv ys ?vi i = Inr (df, lbl, names, vals, kept)"
    by (simp add: valid_indices_filter)
  from add_arguments_Inr [OF this] obtain full where
    df: "df = X ! i"
    and names: "names = map (\<lambda>j. feature_columns e ! j) ?vi"
    and vals: "vals = map (\<lambda>j. the (map_of df (feature_columns e ! j))) ?vi"
    and present: "\<forall>j \<in> set ?vi. map_of df (feature_columns e ! j) \<noteq> None"
    and ts: "target_scores (mode e) sv ys i = Inr (lbl, full)"
    and kept: "kept = map (\<lambda>j. full ! j) ?vi"
    and inside: "\<forall>j \<in> set ?vi. j < length full"
    by blast
  have b: "\<forall>j < length (feature_columns e). feature_columns e ! j \<notin> ignored_features e \<longrightarrow>
               j < length full \<and> map_of (X ! i) (feature_columns e ! j) \<noteq> None"
    using present inside df by simp
  have r: "?r = new_record df lbl names vals kept True"
    using ex a assms(2) len by simp
  have triples: "zip names (zip vals kept)
      = map (\<lambda>j. (feature_columns e ! j, the (map_of (X ! i) (feature_columns e ! j)), full ! j)) ?vi"
    unfolding names vals kept df by (rule zip_three_maps)
  have z: "zip (feature_names ?r) (zip (feature_values ?r) (importance_scores ?r))
      = sort_key score_key
          (map (\<lambda>j. (feature_columns e ! j, the (map_of (X ! i) (feature_columns e ! j)), full ! j)) ?vi)"
    unfolding r new_record_fields(3) triples ..
  have l: "length (feature_values ?r) = length (feature_names ?r)"
    "length (importance_scores ?r) = length (feature_names ?r)"
    unfolding r by (simp_all add: new_record_def Let_def)
  have "set (feature_names ?r) = fst ` set (zip names (zip vals kept))"
    unfolding r by (rule new_record_fields(4))
  also have "\<dots> = (\<lambda>j. feature_columns e ! j) ` set ?vi"
    unfolding triples by (simp add: image_image)
  also have "set ?vi = {j. j < length (feature_columns e) \<and> feature_columns e ! j \<notin> ignored_features e}"
    by auto
  also have "(\<lambda>j. feature_columns e ! j) ` \<dots> = set (feature_columns e) - ignored_features e"
    by (rule kept_names)
  finally have s: "set (feature_names ?r) = set (feature_columns e) - ignored_features e" .
  from sv ys ts b z l s show ?thesis by blast
qed

theorem explain_keeps_valid_features_witness:
  "snd (explain example_classifier example_batch None)
       = Inr \<lparr>fi_mode = ''classification'',
              explanations =
               [\<lparr>rec_instance = [(''a'', 1), (''b'', 2), (''c'', - 3)], target_label = Some 1,
                  feature_names = [''c'', ''a''], feature_values = [- 3, 1],
                  importance_scores = [- 6, 2]\<rparr>,
                \<lparr>rec_instance = [(''a'', 4), (''b'', 5), (''c'', 6)], target_label = Some 1,
                  feature_names = [''c'', ''a''], feature_values = [6, 4],
                  importance_scores = [12, 8]\<rparr>]\<rparr>
   \<and> (1 :: nat) < length example_batch
   \<and> ignored_features example_classifier = {''b''}
   \<and> set (feature_names (explanations (projr (snd (explain example_classifier example_batch None))) ! 1))
       = set (feature_columns example_classifier) - ignored_features example_classifier"
proof -
  have h1: "snd (explain example_classifier example_batch None)
       = Inr \<lparr>fi_mode = ''classification'',
              explanations =
               [\<lparr>rec_instance = [(''a'', 1), (''b'', 2), (''c'', - 3)], target_label = Some 1,
                  feature_names = [''c'', ''a''], feature_values = [- 3, 1],
                  importance_scores = [- 6, 2]\<rparr>,
                \<lparr>rec_instance = [(''a'', 4), (''b'', 5), (''c'', 6)], target_label = Some 1,
                  feature_names = [''c'', ''a''], feature_values = [6, 4],
                  importance_scores = [12, 8]\<rparr>]\<rparr>"
    by code_simp
  have h2: "(1 :: nat) < length example_batch"
    by (simp add: example_batch_def)
  have h3: "ignored_features example_classifier = {''b''}"
    by (simp add: example_classifier_def)
  from explain_keeps_valid_features [OF h1 h2]
  have "set (feature_names (explanations (projr (snd (explain example_classifier example_batch None))) ! 1))
       = set (feature_columns example_classifier) - ignored_features example_classifier"
    unfolding h1 by auto
  with h1 h2 h3 show ?thesis by blast
qed

text \<open>
  The claim as stated (the record keeps the original feature order) fails on this call:
  nothing is ignored, the features are \<open>a\<close>, \<open>b\<close> with scores 1 and 2, and the
  record lists \<open>b\<close> first.
\<close>

theorem record_order_counterexample:
  "feature_columns example_regressor = [''a'', ''b'']
   \<and> ignored_features example_regressor = {}
   \<and> snd (explain example_regressor [[(''a'', 1), (''b'', 2)]] None)
       = Inr \<lparr>fi_mode = ''regression'',
              explanations =
               [\<lparr>rec_instance = [(''a'', 1), (''b'', 2)], target_label = None,
                  feature_names = [''b'', ''a''], feature_values = [2, 1],
                  importance_scores = [2, 1]\<rparr>]\<rparr>"
proof -
  have "snd (explain example_regressor [[(''a'', 1), (''b'', 2)]] None)
       = Inr \<lparr>fi_mode = ''regression'',
              explanations =
               [\<lparr>rec_instance = [(''a'', 1), (''b'', 2)], target_label = None,
                  feature_names = [''b'', ''a''], feature_values = [2, 1],
                  importance_scores = [2, 1]\<rparr>]\<rparr>"
    by code_simp
  then show ?thesis by (simp add: example_regressor_def)
qed

end
